theory Spec2Isabelle
  imports Complex_Main
begin

section \<open>Data model\<close>

text \<open>
  The development embeds \<^verbatim>\<open>packages/lib/raqb/findTeamMembersMatchingAttributeLogic.ts\<close>
  and the evaluator module that follows it (\<^verbatim>\<open>evaluateRaqbLogic\<close>).
  Exceptions and rejected promises are values of the type \<open>error\<close>; a function that can
  throw returns \<open>error + 'a\<close>, with \<open>Inl\<close> for the exception.
\<close>

datatype error = Thrown string | InvalidOperandReference string

text \<open>The enum \<^verbatim>\<open>TroubleshooterCase\<close>, in the order of the source.\<close>

datatype TroubleshooterCase =
    IS_A_ROUTER
  | NO_LOGIC_FOUND
  | MATCH_RESULTS_READY
  | MATCH_RESULTS_READY_WITH_FALLBACK
  | MATCHES_ALL_MEMBERS_BECAUSE_OF_EMPTY_QUERY_VALUE
  | MATCHES_ALL_MEMBERS

subsection \<open>Types imported by the source from modules outside it\<close>

text \<open>
  Modelled from the spec: the type \<^verbatim>\<open>AttributesQueryValue\<close> of \<^verbatim>\<open>./types\<close>, which is
  not among the sources. The spec's QueryNode is a tagged union of a group (a combinator and
  a sequence of children) and a rule (attribute id, operator, operand), where an operand is
  a literal value set or a dynamic reference (source, field) pending resolution. Only the
  operators whose meaning the spec defines are listed.
\<close>

type_synonym AttributeId = string
type_synonym OptionValue = string

datatype Combinator = AND | OR

datatype Operator = EQUALS | NOT_EQUALS | ANY_IN | NONE_IN | IS_EMPTY | IS_NOT_EMPTY

datatype Operand = Literal "OptionValue list" | DynamicRef string string

datatype QueryNode =
    Group Combinator "QueryNode list"
  | Rule AttributeId Operator Operand

type_synonym AttributesQueryValue = QueryNode

text \<open>
  Modelled from the spec: the type \<^verbatim>\<open>dynamicFieldValueOperands\<close> of \<^verbatim>\<open>./types\<close>, which is
  not among the sources. The spec's bindings are looked up as \<^verbatim>\<open>operands[source][field]\<close>.
\<close>

type_synonym dynamicFieldValueOperands = "(string \<times> (string \<times> OptionValue list) list) list"

text \<open>
  Modelled from the spec: the types \<^verbatim>\<open>Attribute\<close> and the element type of
  \<^verbatim>\<open>attributesAssignedToTeamMembersWithOptions\<close>, declared in the attribute service, which
  is not among the sources. The spec's AttributeDefinition has an id, a name, a value type
  and the allowed option ids; a member carries, per attribute id, the ordered sequence of
  assigned option values.
\<close>

datatype ValueType = TextValue | NumberValue | OptionValueType | MultiOptionValue

record Attribute =
  attributeId :: AttributeId
  attributeName :: string
  valueType :: ValueType
  allowedOptionIds :: "string list"

record TeamMemberWithAttributeOptionValuePerAttribute =
  userId :: int
  attributes :: "(AttributeId \<times> OptionValue list) list"

text \<open>What \<^verbatim>\<open>getAttributesAssignmentData\<close> resolves to: the two fields the source reads.\<close>

record AttributesAssignmentData =
  attributesOfTheOrg :: "Attribute list"
  attributesAssignedToTeamMembersWithOptions :: "TeamMemberWithAttributeOptionValuePerAttribute list"

subsection \<open>Types declared by the source\<close>

record AttributesData =
  attributesOfTheOrg :: "Attribute list"
  teamMembersWithAttributeOptionValuePerAttribute :: "TeamMemberWithAttributeOptionValuePerAttribute list"

record RunAttributeLogicData =
  attributesQueryValue :: "AttributesQueryValue option"
  attributesData :: AttributesData
  dynamicFieldValueOperands :: "dynamicFieldValueOperands option"

record RunAttributeLogicOptions =
  enableTroubleshooter :: bool

text \<open>
  The payload built by \<^verbatim>\<open>runAttributeLogic\<close> for the troubleshooter: the object literal
  with the keys \<^verbatim>\<open>reason\<close>, \<^verbatim>\<open>attributesOfTheOrg\<close> and
  \<^verbatim>\<open>teamMembersWithAttributeOptionValuePerAttribute\<close>.
\<close>

record TroubleshooterPayload =
  reason :: string
  attributesOfTheOrg :: "Attribute list"
  teamMembersWithAttributeOptionValuePerAttribute :: "TeamMemberWithAttributeOptionValuePerAttribute list"

text \<open>
  \<^verbatim>\<open>buildTroubleshooterData\<close> takes \<^verbatim>\<open>{ type, data }\<close> and returns an object with the
  single key \<^verbatim>\<open>troubleshooter\<close> holding \<^verbatim>\<open>{ type, data }\<close>. The payload type is
  \<^verbatim>\<open>Record<string, any>\<close> in the source, a type variable here.
\<close>

record 'd Troubleshooter =
  type :: TroubleshooterCase
  data :: 'd

record 'd TroubleshooterData =
  troubleshooter :: "'d Troubleshooter"

text \<open>
  The object returned by \<^verbatim>\<open>runAttributeLogic\<close>. The keys
  \<^verbatim>\<open>teamMembersMatchingAttributeLogic\<close> and \<^verbatim>\<open>timeTaken\<close> are the literal \<^verbatim>\<open>null\<close>
  in the source (\<open>None\<close>); the key \<^verbatim>\<open>troubleshooter\<close> is present only when the spread
  operand is not \<^verbatim>\<open>null\<close>.
\<close>

record RunAttributeLogicResult =
  logicBuildingWarnings :: "string list"
  teamMembersMatchingAttributeLogic :: "TeamMemberWithAttributeOptionValuePerAttribute list option"
  timeTaken :: "(string \<times> real option) list option"
  troubleshooter :: "TroubleshooterPayload Troubleshooter option"

record AttributesForLogic =
  attributesOfTheOrg :: "Attribute list"
  teamMembersWithAttributeOptionValuePerAttribute :: "TeamMemberWithAttributeOptionValuePerAttribute list"
  timeTaken :: "real option"

record FindData =
  teamId :: int
  orgId :: int
  attributesQueryValue :: "AttributesQueryValue option"
  fallbackAttributesQueryValue :: "AttributesQueryValue option"
  dynamicFieldValueOperands :: "dynamicFieldValueOperands option"
  isPreview :: "bool option"

record FindOptions =
  enablePerf :: "bool option"
  concurrency :: "int option"
  enableTroubleshooter :: "bool option"

text \<open>
  The object returned by \<^verbatim>\<open>findTeamMembersMatchingAttributeLogic\<close>. \<^verbatim>\<open>timeTaken\<close> is an
  object keyed by phase name, built with a spread, hence an association list. The last
  spread, \<^verbatim>\<open>...(troubleshooter ?? {})\<close>, copies the keys of the troubleshooter object itself,
  \<^verbatim>\<open>type\<close> and \<^verbatim>\<open>data\<close>, into the result; both are absent (\<open>None\<close>) when the troubleshooter
  is undefined.
\<close>

record FindResult =
  teamMembersMatchingAttributeLogic :: "TeamMemberWithAttributeOptionValuePerAttribute list option"
  checkedFallback :: bool
  mainAttributeLogicBuildingWarnings :: "string list"
  fallbackAttributeLogicBuildingWarnings :: "string list"
  timeTaken :: "(string \<times> real option) list"
  type :: "TroubleshooterCase option"
  data :: "TroubleshooterPayload option"

section \<open>The orchestrator\<close>

text \<open>
  \<^verbatim>\<open>performance.now()\<close> is read twice by \<^verbatim>\<open>asyncPerf\<close>, which the request calls once. The
  clock is a parameter: \<open>clk k\<close> is the outcome of reading number \<open>k\<close>, a time in
  milliseconds or the exception the read throws.
\<close>

type_synonym clock = "nat \<Rightarrow> error + real"

text \<open>
  A reading is a double: the model holds the real number the double stands for. The
  source's \<^verbatim>\<open>end - start\<close> is the subtraction of doubles, which rounds its result; it is a
  parameter, \<open>subtract t_end t_start\<close>, of every function that measures a duration.
\<close>

type_synonym doubleMinus = "real \<Rightarrow> real \<Rightarrow> real"

text \<open>
  \<^verbatim>\<open>asyncPerf\<close>: read the clock, await \<^verbatim>\<open>fn()\<close>, read the clock again, return the pair of the
  result and \<^verbatim>\<open>end - start\<close>. There is no \<^verbatim>\<open>try\<close>: whatever throws rejects the promise.
\<close>

definition asyncPerf ::
    "doubleMinus \<Rightarrow> clock \<Rightarrow> (unit \<Rightarrow> error + 'a) \<Rightarrow> error + ('a \<times> real option)" where
  "asyncPerf subtract clk fn =
     (case clk 0 of
        Inl e \<Rightarrow> Inl e
      | Inr t_start \<Rightarrow>
          (case fn () of
             Inl e \<Rightarrow> Inl e
           | Inr result \<Rightarrow>
               (case clk 1 of
                  Inl e \<Rightarrow> Inl e
                | Inr t_end \<Rightarrow> Inr (result, Some (subtract t_end t_start)))))"

definition buildTroubleshooterData :: "TroubleshooterCase \<Rightarrow> 'd \<Rightarrow> 'd TroubleshooterData" where
  "buildTroubleshooterData ty d =
     \<lparr>TroubleshooterData.troubleshooter = \<lparr>Troubleshooter.type = ty, Troubleshooter.data = d\<rparr>\<rparr>"

text \<open>
  \<^verbatim>\<open>runAttributeLogic\<close>. \<^verbatim>\<open>Boolean(attributesQueryValue)\<close> is true exactly when the query
  value is not \<^verbatim>\<open>null\<close>: a query tree is an object, and every object is truthy.
\<close>

definition runAttributeLogic :: "RunAttributeLogicData \<Rightarrow> RunAttributeLogicOptions \<Rightarrow> RunAttributeLogicResult" where
  "runAttributeLogic d options =
     (let enableTroubleshooter = RunAttributeLogicOptions.enableTroubleshooter options;
          attributesOfTheOrg = AttributesData.attributesOfTheOrg (attributesData d);
          teamMembersWithAttributeOptionValuePerAttribute =
            AttributesData.teamMembersWithAttributeOptionValuePerAttribute (attributesData d);
          attributesQueryValue = RunAttributeLogicData.attributesQueryValue d;
          shouldWarnAboutMissingLogic = (attributesQueryValue \<noteq> None)
      in \<lparr>logicBuildingWarnings =
            (if shouldWarnAboutMissingLogic
             then [''Attribute routing logic evaluation is disabled in this deployment.'']
             else []),
          RunAttributeLogicResult.teamMembersMatchingAttributeLogic = None,
          RunAttributeLogicResult.timeTaken = None,
          RunAttributeLogicResult.troubleshooter =
            (if enableTroubleshooter
             then Some (TroubleshooterData.troubleshooter
                    (buildTroubleshooterData NO_LOGIC_FOUND
                       \<lparr>reason = ''Attribute routing logic disabled on server.'',
                        TroubleshooterPayload.attributesOfTheOrg = attributesOfTheOrg,
                        TroubleshooterPayload.teamMembersWithAttributeOptionValuePerAttribute =
                          teamMembersWithAttributeOptionValuePerAttribute\<rparr>))
             else None)\<rparr>)"

text \<open>
  \<^verbatim>\<open>getAttributesForLogic\<close>. The fetch collaborator \<^verbatim>\<open>getAttributesAssignmentData\<close> is not
  among the sources and is a parameter: given the team and the organisation it resolves
  to the assignment data or rejects.
\<close>

type_synonym fetcher = "int \<Rightarrow> int \<Rightarrow> error + AttributesAssignmentData"

definition getAttributesForLogic ::
    "doubleMinus \<Rightarrow> clock \<Rightarrow> fetcher \<Rightarrow> int \<Rightarrow> int \<Rightarrow> error + AttributesForLogic" where
  "getAttributesForLogic subtract clk getAttributesAssignmentData teamId' orgId' =
     (case asyncPerf subtract clk (\<lambda>_. getAttributesAssignmentData teamId' orgId') of
        Inl e \<Rightarrow> Inl e
      | Inr (result, ttAttributes) \<Rightarrow>
          Inr \<lparr>AttributesForLogic.attributesOfTheOrg =
                 AttributesAssignmentData.attributesOfTheOrg result,
               AttributesForLogic.teamMembersWithAttributeOptionValuePerAttribute =
                 attributesAssignedToTeamMembersWithOptions result,
               AttributesForLogic.timeTaken = ttAttributes\<rparr>)"

text \<open>
  \<^verbatim>\<open>findTeamMembersMatchingAttributeLogic\<close>. The second argument defaults to \<^verbatim>\<open>{}\<close> when it
  is not passed (\<open>None\<close>), and \<^verbatim>\<open>enableTroubleshooter\<close> defaults to \<^verbatim>\<open>false\<close> in the
  destructuring \<^verbatim>\<open>const { enableTroubleshooter = false } = options\<close>; the two defaults are
  \<open>optionsOrDefault\<close> and \<open>enableTroubleshooterOrDefault\<close>.
\<close>

definition optionsOrDefault :: "FindOptions option \<Rightarrow> FindOptions" where
  "optionsOrDefault opts =
     (case opts of
        None \<Rightarrow> \<lparr>enablePerf = None, concurrency = None, FindOptions.enableTroubleshooter = None\<rparr>
      | Some given \<Rightarrow> given)"

definition enableTroubleshooterOrDefault :: "FindOptions \<Rightarrow> bool" where
  "enableTroubleshooterOrDefault options =
     (case FindOptions.enableTroubleshooter options of None \<Rightarrow> False | Some b \<Rightarrow> b)"

definition findTeamMembersMatchingAttributeLogic ::
    "doubleMinus \<Rightarrow> clock \<Rightarrow> fetcher \<Rightarrow> FindData \<Rightarrow> FindOptions option \<Rightarrow> error + FindResult" where
  "findTeamMembersMatchingAttributeLogic subtract clk getAttributesAssignmentData d opts =
     (let options = optionsOrDefault opts;
          enableTroubleshooter = enableTroubleshooterOrDefault options
      in case getAttributesForLogic subtract clk getAttributesAssignmentData (teamId d) (orgId d) of
           Inl e \<Rightarrow> Inl e
         | Inr fetched \<Rightarrow>
             (let ttGetAttributesForLogic = AttributesForLogic.timeTaken fetched;
                  runAttributeLogicData =
                    \<lparr>RunAttributeLogicData.attributesQueryValue = FindData.attributesQueryValue d,
                     attributesData =
                       \<lparr>AttributesData.attributesOfTheOrg =
                          AttributesForLogic.attributesOfTheOrg fetched,
                        AttributesData.teamMembersWithAttributeOptionValuePerAttribute =
                          AttributesForLogic.teamMembersWithAttributeOptionValuePerAttribute fetched\<rparr>,
                     RunAttributeLogicData.dynamicFieldValueOperands =
                       FindData.dynamicFieldValueOperands d\<rparr>;
                  r = runAttributeLogic runAttributeLogicData
                        \<lparr>RunAttributeLogicOptions.enableTroubleshooter = enableTroubleshooter\<rparr>
              in Inr \<lparr>FindResult.teamMembersMatchingAttributeLogic =
                        RunAttributeLogicResult.teamMembersMatchingAttributeLogic r,
                      checkedFallback = False,
                      mainAttributeLogicBuildingWarnings = logicBuildingWarnings r,
                      fallbackAttributeLogicBuildingWarnings = [],
                      FindResult.timeTaken =
                        (''ttGetAttributesForLogic'', ttGetAttributesForLogic)
                          # (case RunAttributeLogicResult.timeTaken r of None \<Rightarrow> [] | Some tt \<Rightarrow> tt),
                      FindResult.type =
                        (case RunAttributeLogicResult.troubleshooter r of
                           None \<Rightarrow> None | Some t \<Rightarrow> Some (Troubleshooter.type t)),
                      FindResult.data =
                        (case RunAttributeLogicResult.troubleshooter r of
                           None \<Rightarrow> None | Some t \<Rightarrow> Some (Troubleshooter.data t))\<rparr>))"

section \<open>The evaluator module\<close>

datatype RaqbLogicResult = MATCH | NO_MATCH | LOGIC_NOT_FOUND_SO_MATCHED

text \<open>
  \<^verbatim>\<open>EvaluateInput\<close>: \<^verbatim>\<open>queryValue\<close> is \<^verbatim>\<open>unknown\<close>, \<^verbatim>\<open>queryBuilderConfig\<close> is \<^verbatim>\<open>any\<close> and
  \<^verbatim>\<open>data\<close> is a \<^verbatim>\<open>Record<string, unknown>\<close>: type variables.
\<close>

record ('q, 'c, 'v) EvaluateInput =
  queryValue :: 'q
  queryBuilderConfig :: 'c
  data :: "(string \<times> 'v) list"
  beStrictWithEmptyLogic :: "bool option"

text \<open>\<^verbatim>\<open>logLevel: 0 | 1 | 2\<close>: debug, info, error or warning.\<close>

datatype LogLevel = Level0 | Level1 | Level2

record EvaluateConfig =
  logLevel :: LogLevel

text \<open>
  \<^verbatim>\<open>warnOnce\<close> closes over the mutable flag \<^verbatim>\<open>warned\<close> and writes to the console. Both are
  the state of the module, passed explicitly.
\<close>

record ModuleState =
  warned :: bool
  console :: "string list"

definition warnOnce :: "string \<Rightarrow> ModuleState \<Rightarrow> ModuleState" where
  "warnOnce message s =
     (if \<not> warned s then s\<lparr>warned := True, console := console s @ [message]\<rparr> else s)"

definition evaluateRaqbLogic ::
    "('q, 'c, 'v) EvaluateInput \<Rightarrow> EvaluateConfig option \<Rightarrow> ModuleState \<Rightarrow> RaqbLogicResult \<times> ModuleState" where
  "evaluateRaqbLogic input config s =
     (let config' = (case config of None \<Rightarrow> \<lparr>logLevel = Level1\<rparr> | Some c \<Rightarrow> c)
      in (LOGIC_NOT_FOUND_SO_MATCHED,
          warnOnce (''evaluateRaqbLogic: React Awesome Query Builder evaluation is disabled. ''
                    @ ''Falling back to default match behaviour.'') s))"

section \<open>The evaluator and the resolver of the spec\<close>

text \<open>
  Modelled from the spec: the ExpressionEvaluator (spec, 4.2). The sources hold no
  interpreter of query trees: \<open>evaluateRaqbLogic\<close> ignores its tree. The spec's evaluator is
  used only to say what a tree matches in the hypotheses the spec states: an AND group is
  true iff all children are, an OR group iff some child is; a rule reads the member's
  values for the attribute (the empty sequence when unassigned); EQUALS and NOT_EQUALS test
  membership of the single operand value, ANY_IN and NONE_IN test the intersection with
  the operand's values, IS_EMPTY and IS_NOT_EMPTY test the length and ignore the operand;
  a rule whose operand is still a dynamic reference does not match.
\<close>

definition memberValues :: "TeamMemberWithAttributeOptionValuePerAttribute \<Rightarrow> AttributeId \<Rightarrow> OptionValue list" where
  "memberValues m a = (case map_of (attributes m) a of None \<Rightarrow> [] | Some vs \<Rightarrow> vs)"

fun spec_evaluateRule :: "Operator \<Rightarrow> Operand \<Rightarrow> OptionValue list \<Rightarrow> bool" where
  "spec_evaluateRule IS_EMPTY _ vals = (vals = [])"
| "spec_evaluateRule IS_NOT_EMPTY _ vals = (vals \<noteq> [])"
| "spec_evaluateRule _ (DynamicRef _ _) vals = False"
| "spec_evaluateRule EQUALS (Literal vs) vals = (case vs of [v] \<Rightarrow> List.member vals v | _ \<Rightarrow> False)"
| "spec_evaluateRule NOT_EQUALS (Literal vs) vals = (case vs of [v] \<Rightarrow> \<not> List.member vals v | _ \<Rightarrow> False)"
| "spec_evaluateRule ANY_IN (Literal vs) vals = list_ex (List.member vs) vals"
| "spec_evaluateRule NONE_IN (Literal vs) vals = (\<not> list_ex (List.member vs) vals)"

fun spec_evaluate :: "QueryNode \<Rightarrow> TeamMemberWithAttributeOptionValuePerAttribute \<Rightarrow> bool" where
  "spec_evaluate (Group AND children) m = list_all (\<lambda>c. spec_evaluate c m) children"
| "spec_evaluate (Group OR children) m = list_ex (\<lambda>c. spec_evaluate c m) children"
| "spec_evaluate (Rule a operator operand) m = spec_evaluateRule operator operand (memberValues m a)"

text \<open>
  Modelled from the spec: the OperandResolver (spec, 4.1), of which the sources hold
  nothing (the orchestrator passes \<^verbatim>\<open>dynamicFieldValueOperands\<close> on and never reads it).
  \<^verbatim>\<open>resolve\<close> walks the tree once; at a dynamic reference it looks up
  \<^verbatim>\<open>operands[source][field]\<close>: a source the bindings do not know fails with
  \<^verbatim>\<open>InvalidOperandReference\<close>; a known source without a value for the field leaves the rule
  indeterminate and records a warning; a bound value replaces the reference by the
  literal. The result is the resolved tree and the warnings.
\<close>

definition lookupOperand :: "dynamicFieldValueOperands \<Rightarrow> string \<Rightarrow> string \<Rightarrow> error + OptionValue list option" where
  "lookupOperand operands source field =
     (case map_of operands source of
        None \<Rightarrow> Inl (InvalidOperandReference source)
      | Some bound \<Rightarrow> Inr (map_of bound field))"

fun resolve :: "dynamicFieldValueOperands \<Rightarrow> QueryNode \<Rightarrow> error + (QueryNode \<times> string list)"
  and resolveChildren :: "dynamicFieldValueOperands \<Rightarrow> QueryNode list \<Rightarrow> error + (QueryNode list \<times> string list)" where
  "resolve operands (Rule a operator (Literal vs)) = Inr (Rule a operator (Literal vs), [])"
| "resolve operands (Rule a operator (DynamicRef source field)) =
     (case lookupOperand operands source field of
        Inl e \<Rightarrow> Inl e
      | Inr None \<Rightarrow>
          Inr (Rule a operator (DynamicRef source field),
               [''no value bound for dynamic operand '' @ source @ ''.'' @ field])
      | Inr (Some vs) \<Rightarrow> Inr (Rule a operator (Literal vs), []))"
| "resolve operands (Group c children) =
     (case resolveChildren operands children of
        Inl e \<Rightarrow> Inl e
      | Inr (children', ws) \<Rightarrow> Inr (Group c children', ws))"
| "resolveChildren operands [] = Inr ([], [])"
| "resolveChildren operands (t # ts) =
     (case resolve operands t of
        Inl e \<Rightarrow> Inl e
      | Inr (t', ws) \<Rightarrow>
          (case resolveChildren operands ts of
             Inl e \<Rightarrow> Inl e
           | Inr (ts', ws') \<Rightarrow> Inr (t' # ts', ws @ ws')))"

text \<open>A tree is fully literal when no rule of it has a dynamic reference as operand.\<close>

fun fullyLiteral :: "QueryNode \<Rightarrow> bool" where
  "fullyLiteral (Group c children) = list_all fullyLiteral children"
| "fullyLiteral (Rule a operator (Literal vs)) = True"
| "fullyLiteral (Rule a operator (DynamicRef source field)) = False"

section \<open>Concrete inputs\<close>

text \<open>
  The scenario of the spec: the attribute Department, the members A (Sales), B (Support)
  and C (no value); clocks that work, a clock that throws at every reading and one that
  throws at the second; a fetch collaborator that returns the three members.
\<close>

definition department :: Attribute where
  "department = \<lparr>attributeId = ''department'', attributeName = ''Department'',
                  valueType = OptionValueType, allowedOptionIds = [''Sales'', ''Support'']\<rparr>"

definition memberA :: TeamMemberWithAttributeOptionValuePerAttribute where
  "memberA = \<lparr>userId = 1, attributes = [(''department'', [''Sales''])]\<rparr>"

definition memberB :: TeamMemberWithAttributeOptionValuePerAttribute where
  "memberB = \<lparr>userId = 2, attributes = [(''department'', [''Support''])]\<rparr>"

definition memberC :: TeamMemberWithAttributeOptionValuePerAttribute where
  "memberC = \<lparr>userId = 3, attributes = []\<rparr>"

definition teamFetch :: fetcher where
  "teamFetch team org =
     Inr \<lparr>AttributesAssignmentData.attributesOfTheOrg = [department],
          attributesAssignedToTeamMembersWithOptions = [memberA, memberB, memberC]\<rparr>"

text \<open>
  The clocks below read small whole numbers of milliseconds. A double holds such numbers
  and their differences exactly, so on these readings the subtraction of doubles is the
  difference.
\<close>

definition exactDifference :: doubleMinus where
  "exactDifference t_end t_start = t_end - t_start"

definition workingClock :: clock where
  "workingClock k = Inr (10 + 2 * real k)"

definition brokenClock :: clock where
  "brokenClock k = Inl (Thrown ''performance is not defined'')"

definition ruleMarketing :: QueryNode where
  "ruleMarketing = Rule ''department'' EQUALS (Literal [''Marketing''])"

definition ruleNotSales :: QueryNode where
  "ruleNotSales = Rule ''department'' NONE_IN (Literal [''Sales''])"

definition ruleEngineering :: QueryNode where
  "ruleEngineering = Rule ''department'' ANY_IN (Literal [''Engineering''])"

definition ruleDynamic :: QueryNode where
  "ruleDynamic = Rule ''department'' EQUALS (DynamicRef ''form'' ''department'')"

definition formWithoutDepartment :: dynamicFieldValueOperands where
  "formWithoutDepartment = [(''form'', [(''region'', [''EU''])])]"

definition request :: "QueryNode option \<Rightarrow> QueryNode option \<Rightarrow> FindData" where
  "request primary fallback =
     \<lparr>teamId = 7, orgId = 1,
      FindData.attributesQueryValue = primary,
      fallbackAttributesQueryValue = fallback,
      FindData.dynamicFieldValueOperands = None,
      isPreview = None\<rparr>"

definition withTroubleshooter :: "bool \<Rightarrow> FindOptions option" where
  "withTroubleshooter b =
     Some \<lparr>enablePerf = None, concurrency = None, FindOptions.enableTroubleshooter = Some b\<rparr>"

definition freshModule :: ModuleState where
  "freshModule = \<lparr>warned = False, console = []\<rparr>"

definition memberInput ::
    "QueryNode \<Rightarrow> TeamMemberWithAttributeOptionValuePerAttribute \<Rightarrow> (QueryNode, unit, OptionValue list) EvaluateInput" where
  "memberInput q m =
     \<lparr>queryValue = q, queryBuilderConfig = (), EvaluateInput.data = attributes m,
      beStrictWithEmptyLogic = None\<rparr>"

definition fetchTeam7 :: "unit \<Rightarrow> error + AttributesAssignmentData" where
  "fetchTeam7 u = teamFetch 7 1"

definition lateClock :: clock where
  "lateClock k = Inr (100 + 7 * real k)"

definition stoppingClock :: clock where
  "stoppingClock k = (if k = 0 then Inr 10 else Inl (Thrown ''performance is not defined''))"

section \<open>What the orchestrator computes\<close>

lemmas examples = department_def memberA_def memberB_def memberC_def teamFetch_def
  workingClock_def brokenClock_def ruleMarketing_def ruleNotSales_def ruleEngineering_def
  ruleDynamic_def formWithoutDepartment_def request_def withTroubleshooter_def
  freshModule_def memberInput_def fetchTeam7_def lateClock_def stoppingClock_def
  exactDifference_def

lemma asyncPerf_ok:
  "clk 0 = Inr a \<Longrightarrow> clk 1 = Inr b \<Longrightarrow> fn () = Inr r \<Longrightarrow>
   asyncPerf subtract clk fn = Inr (r, Some (subtract b a))"
  by (simp add: asyncPerf_def)

lemma asyncPerf_first_reading_throws:
  "clk 0 = Inl e \<Longrightarrow> asyncPerf subtract clk fn = Inl e"
  by (simp add: asyncPerf_def)

lemma asyncPerf_second_reading_throws:
  "clk 0 = Inr a \<Longrightarrow> fn () = Inr r \<Longrightarrow> clk 1 = Inl e \<Longrightarrow> asyncPerf subtract clk fn = Inl e"
  by (simp add: asyncPerf_def)

lemma asyncPerf_fn_throws:
  "clk 0 = Inr a \<Longrightarrow> fn () = Inl e \<Longrightarrow> asyncPerf subtract clk fn = Inl e"
  by (simp add: asyncPerf_def)

lemma getAttributesForLogic_ok:
  "clk 0 = Inr a \<Longrightarrow> clk 1 = Inr b \<Longrightarrow> fetch t g = Inr res \<Longrightarrow>
   getAttributesForLogic subtract clk fetch t g =
     Inr \<lparr>AttributesForLogic.attributesOfTheOrg = AttributesAssignmentData.attributesOfTheOrg res,
          AttributesForLogic.teamMembersWithAttributeOptionValuePerAttribute =
            attributesAssignedToTeamMembersWithOptions res,
          AttributesForLogic.timeTaken = Some (subtract b a)\<rparr>"
  by (simp add: getAttributesForLogic_def asyncPerf_def)

text \<open>The whole outcome of a call whose fetch and clock readings succeed.\<close>

lemma find_ok:
  "clk 0 = Inr a \<Longrightarrow> clk 1 = Inr b \<Longrightarrow> fetch (teamId d) (orgId d) = Inr res \<Longrightarrow>
   findTeamMembersMatchingAttributeLogic subtract clk fetch d opts =
     Inr \<lparr>FindResult.teamMembersMatchingAttributeLogic = None,
          checkedFallback = False,
          mainAttributeLogicBuildingWarnings =
            (if FindData.attributesQueryValue d \<noteq> None
             then [''Attribute routing logic evaluation is disabled in this deployment.'']
             else []),
          fallbackAttributeLogicBuildingWarnings = [],
          FindResult.timeTaken = [(''ttGetAttributesForLogic'', Some (subtract b a))],
          FindResult.type =
            (if enableTroubleshooterOrDefault (optionsOrDefault opts) then Some NO_LOGIC_FOUND else None),
          FindResult.data =
            (if enableTroubleshooterOrDefault (optionsOrDefault opts)
             then Some \<lparr>reason = ''Attribute routing logic disabled on server.'',
                        TroubleshooterPayload.attributesOfTheOrg =
                          AttributesAssignmentData.attributesOfTheOrg res,
                        TroubleshooterPayload.teamMembersWithAttributeOptionValuePerAttribute =
                          attributesAssignedToTeamMembersWithOptions res\<rparr>
             else None)\<rparr>"
  by (simp add: findTeamMembersMatchingAttributeLogic_def getAttributesForLogic_ok
      runAttributeLogic_def buildTroubleshooterData_def Let_def)

lemma find_fails:
  "getAttributesForLogic subtract clk fetch (teamId d) (orgId d) = Inl e \<Longrightarrow>
   findTeamMembersMatchingAttributeLogic subtract clk fetch d opts = Inl e"
  by (simp add: findTeamMembersMatchingAttributeLogic_def Let_def)

lemma evaluateRaqbLogic_result:
  "fst (evaluateRaqbLogic input config s) = LOGIC_NOT_FOUND_SO_MATCHED"
  by (simp add: evaluateRaqbLogic_def)

lemma find_cases:
  "findTeamMembersMatchingAttributeLogic subtract clk fetch d opts =
     (case getAttributesForLogic subtract clk fetch (teamId d) (orgId d) of
        Inl e \<Rightarrow> Inl e
      | Inr fetched \<Rightarrow>
          Inr \<lparr>FindResult.teamMembersMatchingAttributeLogic = None,
               checkedFallback = False,
               mainAttributeLogicBuildingWarnings =
                 (if FindData.attributesQueryValue d \<noteq> None
                  then [''Attribute routing logic evaluation is disabled in this deployment.'']
                  else []),
               fallbackAttributeLogicBuildingWarnings = [],
               FindResult.timeTaken = [(''ttGetAttributesForLogic'', AttributesForLogic.timeTaken fetched)],
               FindResult.type =
                 (if enableTroubleshooterOrDefault (optionsOrDefault opts) then Some NO_LOGIC_FOUND else None),
               FindResult.data =
                 (if enableTroubleshooterOrDefault (optionsOrDefault opts)
                  then Some \<lparr>reason = ''Attribute routing logic disabled on server.'',
                        TroubleshooterPayload.attributesOfTheOrg =
                          AttributesForLogic.attributesOfTheOrg fetched,
                        TroubleshooterPayload.teamMembersWithAttributeOptionValuePerAttribute =
                          AttributesForLogic.teamMembersWithAttributeOptionValuePerAttribute fetched\<rparr>
                  else None)\<rparr>)"
  by (simp add: findTeamMembersMatchingAttributeLogic_def runAttributeLogic_def
      buildTroubleshooterData_def Let_def split: sum.splits)

lemma find_needs_fetch:
  assumes "clk 0 = Inr a"
    and "findTeamMembersMatchingAttributeLogic subtract clk fetch d opts = Inr r"
  shows "\<exists>res. fetch (teamId d) (orgId d) = Inr res"
proof (cases "fetch (teamId d) (orgId d)")
  case (Inl e)
  with assms(1) have "asyncPerf subtract clk (\<lambda>_. fetch (teamId d) (orgId d)) = Inl e"
    by (simp add: asyncPerf_fn_throws)
  then have "getAttributesForLogic subtract clk fetch (teamId d) (orgId d) = Inl e"
    by (simp add: getAttributesForLogic_def)
  then have "findTeamMembersMatchingAttributeLogic subtract clk fetch d opts = Inl e"
    by (rule find_fails)
  with assms(2) show ?thesis
    by simp
next
  case (Inr res)
  then show ?thesis
    by blast
qed

text \<open>The spec's own scenarios, as a check of the evaluator and the resolver modelled from it.\<close>

lemma spec_evaluate_scenario:
  "filter (spec_evaluate (Rule ''department'' EQUALS (Literal [''Sales''])))
     [memberA, memberB, memberC] = [memberA]"
  "filter (spec_evaluate (Group AND [])) [memberA, memberB, memberC] = [memberA, memberB, memberC]"
  "filter (spec_evaluate (Group OR [])) [memberA, memberB, memberC] = []"
  "filter (spec_evaluate ruleNotSales) [memberA, memberB, memberC] = [memberB, memberC]"
  by (simp_all add: memberA_def memberB_def memberC_def ruleNotSales_def memberValues_def)

lemma resolve_dynamic_example:
  "resolve formWithoutDepartment (Group AND [ruleDynamic])
     = Inr (Group AND [ruleDynamic], [''no value bound for dynamic operand form.department''])"
  "resolve [] ruleDynamic = Inl (InvalidOperandReference ''form'')"
  "resolve [(''form'', [(''department'', [''Sales''])])] ruleDynamic
     = Inr (Rule ''department'' EQUALS (Literal [''Sales'']), [])"
  by (simp_all add: ruleDynamic_def formWithoutDepartment_def lookupOperand_def)

lemma resolve_literal:
  shows "fullyLiteral t \<Longrightarrow> resolve operands t = Inr (t, [])"
    and "list_all fullyLiteral ts \<Longrightarrow> resolveChildren operands ts = Inr (ts, [])"
  by (induction operands t and operands ts rule: resolve_resolveChildren.induct) simp_all

section \<open>The claims\<close>

subsection \<open>C1: no logic configured\<close>

text \<open>
  C1, as stated, fails. With no query value, the three fetched members A, B and C and the
  troubleshooter enabled, the call returns an outcome whose
  \<^verbatim>\<open>teamMembersMatchingAttributeLogic\<close> is \<^verbatim>\<open>null\<close>, not the list of the fetched members,
  and whose warnings do not contain "no attribute logic configured".
\<close>

theorem no_logic_counterexample:
  "(case findTeamMembersMatchingAttributeLogic exactDifference workingClock teamFetch (request None None)
           (withTroubleshooter True) of
      Inl e \<Rightarrow> False
    | Inr r \<Rightarrow>
        FindResult.teamMembersMatchingAttributeLogic r \<noteq> Some [memberA, memberB, memberC]
        \<and> \<not> List.member (mainAttributeLogicBuildingWarnings r) ''no attribute logic configured'')"
  by (simp add: find_ok [where a = 10 and b = 12] examples)

text \<open>
  C1, amended: for every input whose \<^verbatim>\<open>attributesQueryValue\<close> is \<^verbatim>\<open>null\<close>, when the fetch and
  the two clock readings succeed, the call returns an outcome whose
  \<^verbatim>\<open>teamMembersMatchingAttributeLogic\<close> is \<^verbatim>\<open>null\<close>, whose \<^verbatim>\<open>checkedFallback\<close> is false and
  whose warnings are empty; when the troubleshooter is enabled its case is
  \<^verbatim>\<open>NO_LOGIC_FOUND\<close> and its payload holds all the fetched members.
\<close>

theorem no_logic_outcome:
  assumes "FindData.attributesQueryValue d = None"
    and "clk 0 = Inr a" and "clk 1 = Inr b"
    and "fetch (teamId d) (orgId d) = Inr res"
  shows "\<exists>r. findTeamMembersMatchingAttributeLogic subtract clk fetch d opts = Inr r
     \<and> FindResult.teamMembersMatchingAttributeLogic r = None
     \<and> checkedFallback r = False
     \<and> mainAttributeLogicBuildingWarnings r = []
     \<and> fallbackAttributeLogicBuildingWarnings r = []
     \<and> (enableTroubleshooterOrDefault (optionsOrDefault opts) \<longrightarrow>
          FindResult.type r = Some NO_LOGIC_FOUND
          \<and> map_option TroubleshooterPayload.teamMembersWithAttributeOptionValuePerAttribute
                (FindResult.data r)
              = Some (attributesAssignedToTeamMembersWithOptions res))"
  using assms by (simp add: find_ok)

theorem no_logic_outcome_witness:
  "\<exists>r. findTeamMembersMatchingAttributeLogic exactDifference workingClock teamFetch (request None None)
          (withTroubleshooter True) = Inr r
     \<and> FindResult.teamMembersMatchingAttributeLogic r = None
     \<and> checkedFallback r = False
     \<and> mainAttributeLogicBuildingWarnings r = []
     \<and> fallbackAttributeLogicBuildingWarnings r = []
     \<and> FindResult.type r = Some NO_LOGIC_FOUND
     \<and> map_option TroubleshooterPayload.teamMembersWithAttributeOptionValuePerAttribute
           (FindResult.data r)
         = Some [memberA, memberB, memberC]"
  using no_logic_outcome [where d = "request None None" and clk = workingClock
      and a = 10 and b = 12 and fetch = teamFetch and subtract = exactDifference
      and opts = "withTroubleshooter True"
      and res = "\<lparr>AttributesAssignmentData.attributesOfTheOrg = [department],
        attributesAssignedToTeamMembersWithOptions = [memberA, memberB, memberC]\<rparr>"]
  by (simp add: request_def workingClock_def teamFetch_def withTroubleshooter_def
      optionsOrDefault_def enableTroubleshooterOrDefault_def)

subsection \<open>C2: empty groups\<close>

text \<open>
  C2, as stated, fails: evaluating the OR group with no children against member A does not
  return a non-matching result; the evaluator returns \<^verbatim>\<open>LOGIC_NOT_FOUND_SO_MATCHED\<close>.
\<close>

theorem empty_or_group_counterexample:
  "fst (evaluateRaqbLogic (memberInput (Group OR []) memberA) None freshModule) = LOGIC_NOT_FOUND_SO_MATCHED
   \<and> fst (evaluateRaqbLogic (memberInput (Group OR []) memberA) None freshModule) \<noteq> NO_MATCH"
  by (simp add: evaluateRaqbLogic_def)

text \<open>
  C2, amended: for every member's attribute values, every configuration and every state
  of the module, evaluating a group with zero children returns
  \<^verbatim>\<open>LOGIC_NOT_FOUND_SO_MATCHED\<close>, a matching result, with the combinator AND and with the
  combinator OR alike.
\<close>

theorem empty_group_result:
  "fst (evaluateRaqbLogic
          \<lparr>queryValue = Group AND [], queryBuilderConfig = qbc, EvaluateInput.data = memberData,
           beStrictWithEmptyLogic = strict\<rparr> config s) = LOGIC_NOT_FOUND_SO_MATCHED
   \<and> fst (evaluateRaqbLogic
          \<lparr>queryValue = Group OR [], queryBuilderConfig = qbc, EvaluateInput.data = memberData,
           beStrictWithEmptyLogic = strict\<rparr> config s) = LOGIC_NOT_FOUND_SO_MATCHED"
  by (simp add: evaluateRaqbLogic_def)

subsection \<open>C3: fallback activation\<close>

text \<open>
  C3, as stated, fails. In the scenario of the spec the primary rule (Department equals
  Marketing) matches no member and the fallback rule (Department none of Sales) matches B
  and C, yet the outcome of the call does not hold B and C, \<^verbatim>\<open>checkedFallback\<close> is false and
  the troubleshooter case is not \<^verbatim>\<open>MATCH_RESULTS_READY_WITH_FALLBACK\<close>.
\<close>

theorem fallback_counterexample:
  "filter (spec_evaluate ruleMarketing) [memberA, memberB, memberC] = []
   \<and> filter (spec_evaluate ruleNotSales) [memberA, memberB, memberC] = [memberB, memberC]
   \<and> (case findTeamMembersMatchingAttributeLogic exactDifference workingClock teamFetch
             (request (Some ruleMarketing) (Some ruleNotSales)) (withTroubleshooter True) of
        Inl e \<Rightarrow> False
      | Inr r \<Rightarrow>
          FindResult.teamMembersMatchingAttributeLogic r \<noteq> Some [memberB, memberC]
          \<and> checkedFallback r = False
          \<and> FindResult.type r \<noteq> Some MATCH_RESULTS_READY_WITH_FALLBACK)"
  by (simp add: find_ok [where a = 10 and b = 12] examples memberValues_def
      optionsOrDefault_def enableTroubleshooterOrDefault_def)

text \<open>
  C3, amended: for every input, when the fetch and the two clock readings succeed, the
  call returns the same outcome whatever fallback query tree is provided: its
  \<^verbatim>\<open>teamMembersMatchingAttributeLogic\<close> is \<^verbatim>\<open>null\<close>, its \<^verbatim>\<open>checkedFallback\<close> is false, its
  fallback warnings are empty, and its troubleshooter case is never
  \<^verbatim>\<open>MATCH_RESULTS_READY_WITH_FALLBACK\<close>: it is \<^verbatim>\<open>NO_LOGIC_FOUND\<close> when the troubleshooter is
  enabled and absent otherwise.
\<close>

theorem fallback_never_evaluated:
  assumes "clk 0 = Inr a" and "clk 1 = Inr b"
    and "fetch (teamId d) (orgId d) = Inr res"
  shows "\<exists>r. findTeamMembersMatchingAttributeLogic subtract clk fetch
                (d\<lparr>fallbackAttributesQueryValue := fallback\<rparr>) opts = Inr r
     \<and> findTeamMembersMatchingAttributeLogic subtract clk fetch d opts = Inr r
     \<and> FindResult.teamMembersMatchingAttributeLogic r = None
     \<and> checkedFallback r = False
     \<and> fallbackAttributeLogicBuildingWarnings r = []
     \<and> FindResult.type r \<noteq> Some MATCH_RESULTS_READY_WITH_FALLBACK
     \<and> FindResult.type r
         = (if enableTroubleshooterOrDefault (optionsOrDefault opts)
            then Some NO_LOGIC_FOUND else None)"
  using assms by (simp add: find_ok)

theorem fallback_never_evaluated_witness:
  "\<exists>r. findTeamMembersMatchingAttributeLogic exactDifference workingClock teamFetch
          ((request (Some ruleMarketing) None)\<lparr>fallbackAttributesQueryValue := Some ruleNotSales\<rparr>)
          (withTroubleshooter True) = Inr r
     \<and> findTeamMembersMatchingAttributeLogic exactDifference workingClock teamFetch
          (request (Some ruleMarketing) None) (withTroubleshooter True) = Inr r
     \<and> FindResult.teamMembersMatchingAttributeLogic r = None
     \<and> checkedFallback r = False
     \<and> fallbackAttributeLogicBuildingWarnings r = []
     \<and> FindResult.type r \<noteq> Some MATCH_RESULTS_READY_WITH_FALLBACK
     \<and> FindResult.type r = Some NO_LOGIC_FOUND"
  using fallback_never_evaluated [where clk = workingClock and a = 10 and b = 12
      and fetch = teamFetch and subtract = exactDifference
      and d = "request (Some ruleMarketing) None" and fallback = "Some ruleNotSales"
      and opts = "withTroubleshooter True"
      and res = "\<lparr>AttributesAssignmentData.attributesOfTheOrg = [department],
        attributesAssignedToTeamMembersWithOptions = [memberA, memberB, memberC]\<rparr>"]
  by (simp add: request_def workingClock_def teamFetch_def withTroubleshooter_def
      optionsOrDefault_def enableTroubleshooterOrDefault_def)

subsection \<open>C4: no match after both stages\<close>

text \<open>
  C4, as stated, fails. The primary rule (Department equals Marketing) and the fallback
  rule (Department any of Engineering) both match no member of A, B and C, and the returned
  \<^verbatim>\<open>teamMembersMatchingAttributeLogic\<close> is \<^verbatim>\<open>null\<close>, not the empty list.
\<close>

theorem exhaustion_counterexample:
  "filter (spec_evaluate ruleMarketing) [memberA, memberB, memberC] = []
   \<and> filter (spec_evaluate ruleEngineering) [memberA, memberB, memberC] = []
   \<and> (case findTeamMembersMatchingAttributeLogic exactDifference workingClock teamFetch
             (request (Some ruleMarketing) (Some ruleEngineering)) None of
        Inl e \<Rightarrow> False
      | Inr r \<Rightarrow>
          FindResult.teamMembersMatchingAttributeLogic r = None
          \<and> FindResult.teamMembersMatchingAttributeLogic r \<noteq> Some [])"
  by (simp add: find_ok [where a = 10 and b = 12] examples memberValues_def)

text \<open>
  C4, amended: for every input, in particular when both trees match no member, when the
  fetch and the two clock readings succeed the returned
  \<^verbatim>\<open>teamMembersMatchingAttributeLogic\<close> is \<^verbatim>\<open>null\<close>: it is neither the empty list nor the
  list of the fetched members, and the troubleshooter case is never
  \<^verbatim>\<open>MATCHES_ALL_MEMBERS\<close>.
\<close>

theorem exhaustion_outcome:
  assumes "clk 0 = Inr a" and "clk 1 = Inr b"
    and "fetch (teamId d) (orgId d) = Inr res"
  shows "\<exists>r. findTeamMembersMatchingAttributeLogic subtract clk fetch d opts = Inr r
     \<and> FindResult.teamMembersMatchingAttributeLogic r = None
     \<and> FindResult.teamMembersMatchingAttributeLogic r \<noteq> Some []
     \<and> FindResult.teamMembersMatchingAttributeLogic r
         \<noteq> Some (attributesAssignedToTeamMembersWithOptions res)
     \<and> FindResult.type r \<noteq> Some MATCHES_ALL_MEMBERS"
  using assms by (simp add: find_ok)

theorem exhaustion_outcome_witness:
  "\<exists>r. findTeamMembersMatchingAttributeLogic exactDifference workingClock teamFetch
          (request (Some ruleMarketing) (Some ruleEngineering)) None = Inr r
     \<and> FindResult.teamMembersMatchingAttributeLogic r = None
     \<and> FindResult.teamMembersMatchingAttributeLogic r \<noteq> Some []
     \<and> FindResult.teamMembersMatchingAttributeLogic r \<noteq> Some [memberA, memberB, memberC]
     \<and> FindResult.type r \<noteq> Some MATCHES_ALL_MEMBERS"
  using exhaustion_outcome [where clk = workingClock and a = 10 and b = 12
      and fetch = teamFetch and subtract = exactDifference and opts = None
      and d = "request (Some ruleMarketing) (Some ruleEngineering)"
      and res = "\<lparr>AttributesAssignmentData.attributesOfTheOrg = [department],
        attributesAssignedToTeamMembersWithOptions = [memberA, memberB, memberC]\<rparr>"]
  by (simp add: request_def workingClock_def teamFetch_def)

subsection \<open>C5: the evaluator is constant\<close>

text \<open>
  C5: for every input, every configuration (given or defaulted) and every state of the
  module, \<^verbatim>\<open>evaluateRaqbLogic\<close> returns \<^verbatim>\<open>LOGIC_NOT_FOUND_SO_MATCHED\<close>; two calls return the
  same result whatever their query values, member data, builder configurations and
  strictness flags are.
\<close>

theorem evaluateRaqbLogic_constant:
  "fst (evaluateRaqbLogic input config s) = LOGIC_NOT_FOUND_SO_MATCHED
   \<and> fst (evaluateRaqbLogic input config s) = fst (evaluateRaqbLogic input' config' s')"
  by (simp add: evaluateRaqbLogic_def)

subsection \<open>C6: the troubleshooter does not influence the outcome\<close>

text \<open>
  C6: if a call returns an outcome, the call with the same clock, fetch and data and any
  other options (in particular options that differ only in \<^verbatim>\<open>enableTroubleshooter\<close>)
  returns an outcome with the same \<^verbatim>\<open>teamMembersMatchingAttributeLogic\<close>, the same
  \<^verbatim>\<open>checkedFallback\<close> and the same main and fallback warnings; when its troubleshooter is
  not enabled, that outcome has neither of the troubleshooter's keys.
\<close>

theorem troubleshooter_noninterference:
  assumes "findTeamMembersMatchingAttributeLogic subtract clk fetch d opts = Inr r"
  shows "\<exists>r'. findTeamMembersMatchingAttributeLogic subtract clk fetch d opts' = Inr r'
     \<and> FindResult.teamMembersMatchingAttributeLogic r' = FindResult.teamMembersMatchingAttributeLogic r
     \<and> checkedFallback r' = checkedFallback r
     \<and> mainAttributeLogicBuildingWarnings r' = mainAttributeLogicBuildingWarnings r
     \<and> fallbackAttributeLogicBuildingWarnings r' = fallbackAttributeLogicBuildingWarnings r
     \<and> (\<not> enableTroubleshooterOrDefault (optionsOrDefault opts') \<longrightarrow>
           FindResult.type r' = None \<and> FindResult.data r' = None)"
  using assms by (auto simp: find_cases split: sum.splits)

theorem troubleshooter_noninterference_witness:
  "\<exists>r'. findTeamMembersMatchingAttributeLogic exactDifference workingClock teamFetch (request (Some ruleNotSales) None)
           (withTroubleshooter False) = Inr r'
     \<and> FindResult.teamMembersMatchingAttributeLogic r' = None
     \<and> checkedFallback r' = False
     \<and> mainAttributeLogicBuildingWarnings r'
          = [''Attribute routing logic evaluation is disabled in this deployment.'']
     \<and> fallbackAttributeLogicBuildingWarnings r' = []
     \<and> FindResult.type r' = None \<and> FindResult.data r' = None"
  using troubleshooter_noninterference [where clk = workingClock and fetch = teamFetch
      and subtract = exactDifference and d = "request (Some ruleNotSales) None"
      and opts = "withTroubleshooter True" and opts' = "withTroubleshooter False",
      OF find_ok [where a = 10 and b = 12 and res = "\<lparr>AttributesAssignmentData.attributesOfTheOrg = [department],
        attributesAssignedToTeamMembersWithOptions = [memberA, memberB, memberC]\<rparr>"]]
  by (simp add: request_def workingClock_def teamFetch_def withTroubleshooter_def
      optionsOrDefault_def enableTroubleshooterOrDefault_def)

text \<open>
  A call that rejects does so whatever the options are.
\<close>

lemma troubleshooter_failure_same:
  "findTeamMembersMatchingAttributeLogic subtract clk fetch d opts = Inl e \<longleftrightarrow>
   findTeamMembersMatchingAttributeLogic subtract clk fetch d opts' = Inl e"
  by (auto simp: find_cases split: sum.splits)

subsection \<open>C7: dynamic operands without a value\<close>

text \<open>
  C7, as stated, fails. The operands bind no value to the field \<^verbatim>\<open>department\<close> of the
  source \<^verbatim>\<open>form\<close>, and the rule that refers to it does not evaluate to a non-matching
  result: the evaluator returns \<^verbatim>\<open>LOGIC_NOT_FOUND_SO_MATCHED\<close>.
\<close>

theorem dynamic_operand_counterexample:
  "lookupOperand formWithoutDepartment ''form'' ''department'' = Inr None
   \<and> fst (evaluateRaqbLogic (memberInput ruleDynamic memberA) None freshModule) = LOGIC_NOT_FOUND_SO_MATCHED
   \<and> fst (evaluateRaqbLogic (memberInput ruleDynamic memberA) None freshModule) \<noteq> NO_MATCH"
  by (simp add: evaluateRaqbLogic_def lookupOperand_def formWithoutDepartment_def)

text \<open>
  C7, amended: for every rule whose operand is a dynamic reference, bound or not, the
  evaluator returns \<^verbatim>\<open>LOGIC_NOT_FOUND_SO_MATCHED\<close>; \<^verbatim>\<open>runAttributeLogic\<close>, which is total,
  returns for every query tree that is present an outcome whose warnings are the single
  warning that the evaluation is disabled and whose \<^verbatim>\<open>teamMembersMatchingAttributeLogic\<close>
  is \<^verbatim>\<open>null\<close>; that outcome depends neither on the tree nor on the supplied operands.
\<close>

theorem dynamic_operand_outcome:
  "fst (evaluateRaqbLogic
          \<lparr>queryValue = Rule a operator (DynamicRef source field), queryBuilderConfig = qbc,
           EvaluateInput.data = memberData, beStrictWithEmptyLogic = strict\<rparr> config s)
     = LOGIC_NOT_FOUND_SO_MATCHED
   \<and> logicBuildingWarnings
       (runAttributeLogic
          \<lparr>RunAttributeLogicData.attributesQueryValue = Some q, attributesData = ad,
           RunAttributeLogicData.dynamicFieldValueOperands = operands\<rparr> options)
     = [''Attribute routing logic evaluation is disabled in this deployment.'']
   \<and> RunAttributeLogicResult.teamMembersMatchingAttributeLogic
       (runAttributeLogic
          \<lparr>RunAttributeLogicData.attributesQueryValue = Some q, attributesData = ad,
           RunAttributeLogicData.dynamicFieldValueOperands = operands\<rparr> options)
     = None
   \<and> runAttributeLogic
          \<lparr>RunAttributeLogicData.attributesQueryValue = Some q, attributesData = ad,
           RunAttributeLogicData.dynamicFieldValueOperands = operands\<rparr> options
     = runAttributeLogic
          \<lparr>RunAttributeLogicData.attributesQueryValue = Some q', attributesData = ad,
           RunAttributeLogicData.dynamicFieldValueOperands = operands'\<rparr> options"
  by (simp add: evaluateRaqbLogic_def runAttributeLogic_def Let_def)

subsection \<open>C8: determinism of the evaluator\<close>

text \<open>
  C8: evaluating an input again, in the state of the module that the first evaluation
  left, returns the same result; and for two orders \<open>ms\<close> and \<open>ms'\<close> of the same members, the
  members that match are the same set, whatever state of the module each member's
  evaluation starts from (\<open>st\<close> and \<open>st'\<close>: the state depends on the evaluations that ran
  before).
\<close>

theorem evaluateRaqbLogic_deterministic:
  assumes "set ms = set ms'"
  shows "fst (evaluateRaqbLogic input config (snd (evaluateRaqbLogic input config s)))
           = fst (evaluateRaqbLogic input config s)
     \<and> set (filter (\<lambda>m. fst (evaluateRaqbLogic (inputOf m) config (st m)) \<noteq> NO_MATCH) ms)
       = set (filter (\<lambda>m. fst (evaluateRaqbLogic (inputOf m) config (st' m)) \<noteq> NO_MATCH) ms')"
  using assms by (simp add: evaluateRaqbLogic_result)

theorem evaluateRaqbLogic_deterministic_witness:
  "fst (evaluateRaqbLogic (memberInput ruleNotSales memberA) None
          (snd (evaluateRaqbLogic (memberInput ruleNotSales memberA) None freshModule)))
     = fst (evaluateRaqbLogic (memberInput ruleNotSales memberA) None freshModule)
   \<and> set (filter (\<lambda>m. fst (evaluateRaqbLogic (memberInput ruleNotSales m) None freshModule) \<noteq> NO_MATCH)
          [memberA, memberB, memberC])
     = set (filter (\<lambda>m. fst (evaluateRaqbLogic (memberInput ruleNotSales m) None
                              (warnOnce ''already warned'' freshModule)) \<noteq> NO_MATCH)
          [memberC, memberA, memberB])"
proof -
  have "set [memberA, memberB, memberC] = set [memberC, memberA, memberB]"
    by auto
  then show ?thesis
    by (rule evaluateRaqbLogic_deterministic
        [where inputOf = "memberInput ruleNotSales" and config = None
           and st = "\<lambda>m. freshModule" and st' = "\<lambda>m. warnOnce ''already warned'' freshModule"])
qed

subsection \<open>C9: timing\<close>

text \<open>
  C9, as stated, fails. When reading the clock throws, \<^verbatim>\<open>asyncPerf\<close> rejects with the
  exception, and so does the whole call: no outcome with a \<^verbatim>\<open>null\<close> duration is returned.
\<close>

theorem timing_failure_counterexample:
  "fetchTeam7 () = teamFetch 7 1
   \<and> asyncPerf exactDifference brokenClock fetchTeam7 = Inl (Thrown ''performance is not defined'')
   \<and> findTeamMembersMatchingAttributeLogic exactDifference brokenClock teamFetch (request None None) None
       = Inl (Thrown ''performance is not defined'')"
  by (simp add: asyncPerf_def brokenClock_def fetchTeam7_def find_cases getAttributesForLogic_def)

text \<open>
  C9, amended: when both clock readings succeed, \<^verbatim>\<open>asyncPerf(fn)\<close> rejects exactly when
  \<^verbatim>\<open>fn\<close> does and otherwise returns the result of \<^verbatim>\<open>fn\<close> with \<^verbatim>\<open>end - start\<close> as the
  subtraction of doubles computes it, never \<^verbatim>\<open>null\<close>; the matched members,
  \<^verbatim>\<open>checkedFallback\<close>, the warnings and the troubleshooter keys of the outcome do not depend
  on the readings; when the first reading throws, or the awaited function succeeds and the
  second reading throws, \<^verbatim>\<open>asyncPerf\<close> rejects with that exception, and so does the whole
  call.
\<close>

theorem asyncPerf_transparent:
  "(clk 0 = Inr a \<and> clk 1 = Inr b \<longrightarrow>
      asyncPerf subtract clk fn = (case fn () of Inl e \<Rightarrow> Inl e | Inr result \<Rightarrow> Inr (result, Some (subtract b a))))
   \<and> (clk 0 = Inr a \<and> clk 1 = Inr b \<and> clk' 0 = Inr a' \<and> clk' 1 = Inr b'
        \<and> findTeamMembersMatchingAttributeLogic subtract clk fetch d opts = Inr r \<longrightarrow>
      (\<exists>r'. findTeamMembersMatchingAttributeLogic subtract clk' fetch d opts = Inr r'
         \<and> FindResult.teamMembersMatchingAttributeLogic r' = FindResult.teamMembersMatchingAttributeLogic r
         \<and> checkedFallback r' = checkedFallback r
         \<and> mainAttributeLogicBuildingWarnings r' = mainAttributeLogicBuildingWarnings r
         \<and> fallbackAttributeLogicBuildingWarnings r' = fallbackAttributeLogicBuildingWarnings r
         \<and> FindResult.type r' = FindResult.type r
         \<and> FindResult.data r' = FindResult.data r))
   \<and> (clkF 0 = Inl e \<longrightarrow>
        asyncPerf subtract clkF fn = Inl e
        \<and> findTeamMembersMatchingAttributeLogic subtract clkF fetch d opts = Inl e)
   \<and> (clkG 0 = Inr a \<and> fn () = Inr result \<and> clkG 1 = Inl e \<longrightarrow>
        asyncPerf subtract clkG fn = Inl e)
   \<and> (clkG 0 = Inr a \<and> fetch (teamId d) (orgId d) = Inr res \<and> clkG 1 = Inl e \<longrightarrow>
        findTeamMembersMatchingAttributeLogic subtract clkG fetch d opts = Inl e)"
proof (intro conjI impI)
  assume "clk 0 = Inr a \<and> clk 1 = Inr b"
  then show "asyncPerf subtract clk fn = (case fn () of Inl e \<Rightarrow> Inl e | Inr result \<Rightarrow> Inr (result, Some (subtract b a)))"
    by (simp add: asyncPerf_def split: sum.splits)
next
  assume h: "clk 0 = Inr a \<and> clk 1 = Inr b \<and> clk' 0 = Inr a' \<and> clk' 1 = Inr b'
        \<and> findTeamMembersMatchingAttributeLogic subtract clk fetch d opts = Inr r"
  then obtain fetched where fetched: "fetch (teamId d) (orgId d) = Inr fetched"
    using find_needs_fetch by blast
  with h show "\<exists>r'. findTeamMembersMatchingAttributeLogic subtract clk' fetch d opts = Inr r'
         \<and> FindResult.teamMembersMatchingAttributeLogic r' = FindResult.teamMembersMatchingAttributeLogic r
         \<and> checkedFallback r' = checkedFallback r
         \<and> mainAttributeLogicBuildingWarnings r' = mainAttributeLogicBuildingWarnings r
         \<and> fallbackAttributeLogicBuildingWarnings r' = fallbackAttributeLogicBuildingWarnings r
         \<and> FindResult.type r' = FindResult.type r
         \<and> FindResult.data r' = FindResult.data r"
    by (auto simp: find_ok [where a = a and b = b] find_ok [where a = a' and b = b'])
next
  assume "clkF 0 = Inl e"
  then show "asyncPerf subtract clkF fn = Inl e"
    by (simp add: asyncPerf_def)
next
  assume "clkF 0 = Inl e"
  then show "findTeamMembersMatchingAttributeLogic subtract clkF fetch d opts = Inl e"
    by (simp add: find_cases getAttributesForLogic_def asyncPerf_def)
next
  assume "clkG 0 = Inr a \<and> fn () = Inr result \<and> clkG 1 = Inl e"
  then show "asyncPerf subtract clkG fn = Inl e"
    by (simp add: asyncPerf_def)
next
  assume "clkG 0 = Inr a \<and> fetch (teamId d) (orgId d) = Inr res \<and> clkG 1 = Inl e"
  then have "asyncPerf subtract clkG (\<lambda>_. fetch (teamId d) (orgId d)) = Inl e"
    by (simp add: asyncPerf_second_reading_throws)
  then have "getAttributesForLogic subtract clkG fetch (teamId d) (orgId d) = Inl e"
    by (simp add: getAttributesForLogic_def)
  then show "findTeamMembersMatchingAttributeLogic subtract clkG fetch d opts = Inl e"
    by (rule find_fails)
qed

theorem asyncPerf_transparent_witness:
  "asyncPerf exactDifference workingClock fetchTeam7
     = Inr (\<lparr>AttributesAssignmentData.attributesOfTheOrg = [department],
             attributesAssignedToTeamMembersWithOptions = [memberA, memberB, memberC]\<rparr>, Some 2)
   \<and> (\<exists>r'. findTeamMembersMatchingAttributeLogic exactDifference lateClock teamFetch (request (Some ruleNotSales) None) None = Inr r'
         \<and> FindResult.teamMembersMatchingAttributeLogic r' = None
         \<and> checkedFallback r' = False
         \<and> mainAttributeLogicBuildingWarnings r'
             = [''Attribute routing logic evaluation is disabled in this deployment.'']
         \<and> fallbackAttributeLogicBuildingWarnings r' = []
         \<and> FindResult.type r' = None
         \<and> FindResult.data r' = None)
   \<and> asyncPerf exactDifference brokenClock fetchTeam7 = Inl (Thrown ''performance is not defined'')
   \<and> findTeamMembersMatchingAttributeLogic exactDifference brokenClock teamFetch (request (Some ruleNotSales) None) None
       = Inl (Thrown ''performance is not defined'')
   \<and> asyncPerf exactDifference stoppingClock fetchTeam7 = Inl (Thrown ''performance is not defined'')
   \<and> findTeamMembersMatchingAttributeLogic exactDifference stoppingClock teamFetch
         (request (Some ruleNotSales) None) None
       = Inl (Thrown ''performance is not defined'')"
proof -
  let ?res = "\<lparr>AttributesAssignmentData.attributesOfTheOrg = [department],
               attributesAssignedToTeamMembersWithOptions = [memberA, memberB, memberC]\<rparr>"
  let ?r = "\<lparr>FindResult.teamMembersMatchingAttributeLogic = None,
             checkedFallback = False,
             mainAttributeLogicBuildingWarnings =
               [''Attribute routing logic evaluation is disabled in this deployment.''],
             fallbackAttributeLogicBuildingWarnings = [],
             FindResult.timeTaken = [(''ttGetAttributesForLogic'', Some 2)],
             FindResult.type = None, FindResult.data = None\<rparr>"
  have run: "findTeamMembersMatchingAttributeLogic exactDifference workingClock teamFetch
               (request (Some ruleNotSales) None) None = Inr ?r"
    by (simp add: find_ok [where a = 10 and b = 12 and res = ?res] workingClock_def teamFetch_def
        request_def optionsOrDefault_def enableTroubleshooterOrDefault_def exactDifference_def)
  show ?thesis
    using run
      asyncPerf_transparent [where subtract = exactDifference and clk = workingClock
        and a = 10 and b = 12 and fn = fetchTeam7 and clk' = lateClock and a' = 100 and b' = 107
        and fetch = teamFetch and d = "request (Some ruleNotSales) None" and opts = None
        and r = ?r and clkF = brokenClock and e = "Thrown ''performance is not defined''"
        and clkG = stoppingClock and result = ?res and res = ?res]
    by (simp add: workingClock_def lateClock_def brokenClock_def stoppingClock_def fetchTeam7_def
        teamFetch_def exactDifference_def request_def)
qed

subsection \<open>C10: resolving a literal tree\<close>

text \<open>
  C10: for every query tree without a dynamic reference and all operand bindings, the
  resolver of the spec returns the tree unchanged, with no warning.
\<close>

theorem resolve_literal_identity:
  "fullyLiteral t \<Longrightarrow> resolve operands t = Inr (t, [])"
  by (simp add: resolve_literal)

theorem resolve_literal_identity_witness:
  "fullyLiteral (Group AND [ruleMarketing, Group OR [ruleNotSales, Group AND []]])
   \<and> resolve formWithoutDepartment (Group AND [ruleMarketing, Group OR [ruleNotSales, Group AND []]])
       = Inr (Group AND [ruleMarketing, Group OR [ruleNotSales, Group AND []]], [])"
proof -
  have lit: "fullyLiteral (Group AND [ruleMarketing, Group OR [ruleNotSales, Group AND []]])"
    by (simp add: ruleMarketing_def ruleNotSales_def)
  from lit resolve_literal_identity [OF lit] show ?thesis
    by simp
qed

end
